theory Spec2Isabelle
  imports Main "HOL-Library.AList" "HOL-Library.Char_ord" "HOL-Library.List_Lexorder"
begin

section \<open>Go strings and the string functions the proxy calls\<close>

text \<open>
  A Go string is a sequence of bytes; it is modelled as a \<^typ>\<open>string\<close> (a list of 8-bit
  characters). The non-ASCII literals of the source are written as their UTF-8 bytes.
\<close>

type_synonym bytes = string

definition strings_HasPrefix :: "string \<Rightarrow> string \<Rightarrow> bool" where
  "strings_HasPrefix s pre = (take (length pre) s = pre)"

definition strings_HasSuffix :: "string \<Rightarrow> string \<Rightarrow> bool" where
  "strings_HasSuffix s suf = (length suf \<le> length s \<and> drop (length s - length suf) s = suf)"

definition strings_TrimSuffix :: "string \<Rightarrow> string \<Rightarrow> string" where
  "strings_TrimSuffix s suf =
     (if strings_HasSuffix s suf then take (length s - length suf) s else s)"

text \<open>\<open>strings.Index(s, ":")\<close> for a one-byte separator; \<open>None\<close> is Go's \<open>-1\<close>.\<close>

fun strings_IndexByte :: "string \<Rightarrow> char \<Rightarrow> nat option" where
  "strings_IndexByte [] c = None"
| "strings_IndexByte (x # xs) c =
     (if x = c then Some 0 else map_option Suc (strings_IndexByte xs c))"

fun strings_Contains :: "string \<Rightarrow> string \<Rightarrow> bool" where
  "strings_Contains [] sub = (sub = [])"
| "strings_Contains (x # xs) sub = (strings_HasPrefix (x # xs) sub \<or> strings_Contains xs sub)"

text \<open>\<open>strings.Join(elems, sep)\<close>.\<close>

fun strings_Join :: "string list \<Rightarrow> string \<Rightarrow> string" where
  "strings_Join [] sep = []"
| "strings_Join [x] sep = x"
| "strings_Join (x # y # ys) sep = x @ sep @ strings_Join (y # ys) sep"

text \<open>
  Case mapping of one byte. \<open>strings.ToLower\<close> is modelled on ASCII letters, which is what
  header names, content types and encodings are made of; every other byte is kept.
\<close>

definition toLowerByte :: "char \<Rightarrow> char" where
  "toLowerByte c =
     (case map_of (zip ''ABCDEFGHIJKLMNOPQRSTUVWXYZ'' ''abcdefghijklmnopqrstuvwxyz'') c of
        None \<Rightarrow> c | Some l \<Rightarrow> l)"

definition toUpperByte :: "char \<Rightarrow> char" where
  "toUpperByte c =
     (case map_of (zip ''abcdefghijklmnopqrstuvwxyz'' ''ABCDEFGHIJKLMNOPQRSTUVWXYZ'') c of
        None \<Rightarrow> c | Some u \<Rightarrow> u)"

definition strings_ToLower :: "string \<Rightarrow> string" where
  "strings_ToLower s = map toLowerByte s"

section \<open>net/textproto and net/http headers\<close>

text \<open>
  \<open>http.Header\<close> is \<open>map[string][]string\<close>. A Go map is modelled as an association list with
  distinct keys; the order of the list is the order in which a \<open>range\<close> loop happens to
  visit the map, so a statement for every list is a statement for every iteration order.
\<close>

type_synonym Header = "(string \<times> string list) list"

definition validHeaderFieldByte :: "char \<Rightarrow> bool" where
  "validHeaderFieldByte c =
     (c \<in> set (''abcdefghijklmnopqrstuvwxyzABCDEFGHIJKLMNOPQRSTUVWXYZ0123456789''
               @ ''!#$%&*+-.^_|~'' @ [CHR 0x27, CHR 0x60]))"

text \<open>
  The rewriting loop of \<open>canonicalMIMEHeaderKey\<close>: the first letter and every letter after
  a hyphen in upper case, the others in lower case.
\<close>

fun canonicalLoop :: "bool \<Rightarrow> string \<Rightarrow> string" where
  "canonicalLoop upper [] = []"
| "canonicalLoop upper (c # cs) =
     (let c' = (if upper then toUpperByte c else toLowerByte c)
      in c' # canonicalLoop (c' = CHR ''-'') cs)"

text \<open>\<open>textproto.CanonicalMIMEHeaderKey\<close>: a key with a byte that is no header field byte
  is returned unchanged.\<close>

definition CanonicalMIMEHeaderKey :: "string \<Rightarrow> string" where
  "CanonicalMIMEHeaderKey s =
     (if list_all validHeaderFieldByte s then canonicalLoop True s else s)"

text \<open>\<open>Header.Get\<close>: the first value under the canonical key, \<open>""\<close> when there is none.\<close>

definition Header_Get :: "Header \<Rightarrow> string \<Rightarrow> string" where
  "Header_Get h key =
     (case map_of h (CanonicalMIMEHeaderKey key) of
        None \<Rightarrow> []
      | Some vs \<Rightarrow> (case vs of [] \<Rightarrow> [] | v # _ \<Rightarrow> v))"

definition Header_Set :: "Header \<Rightarrow> string \<Rightarrow> string \<Rightarrow> Header" where
  "Header_Set h key v = AList.update (CanonicalMIMEHeaderKey key) [v] h"

definition Header_Del :: "Header \<Rightarrow> string \<Rightarrow> Header" where
  "Header_Del h key = AList.delete (CanonicalMIMEHeaderKey key) h"

section \<open>config.go: the configuration\<close>

type_synonym error = string

record ServerConfig =
  Port :: int
  Public :: bool

record LogConfig =
  Level :: string
  File :: string

record ResolveConfig =
  DNS :: string
  IP :: string

text \<open>\<open>removes\<close> is the unexported \<open>map[string]struct{}\<close>: a set of keys, the nil map being
  the empty set (a lookup in a nil map finds nothing).\<close>

record HeadersConfig =
  Set :: "(string \<times> string) list"
  Extra :: "(string \<times> string) list"
  Remove :: "string list"
  ForwardClient :: bool
  removes :: "string set"

text \<open>\<open>Resolve\<close> is the field of the configuration variant that src/unnamed/part\_000 reads;
  src/config.go has no such field and src/proxy.go never reads it.\<close>

record TransitRule =
  BackendBase :: string
  BackendPrefix :: string
  Resolve :: ResolveConfig
  Headers :: HeadersConfig

record Config =
  Server :: ServerConfig
  Log :: LogConfig
  TransitMap :: "(string \<times> TransitRule) list"

text \<open>
  The body of the loop \<open>for host, rule := range config.TransitMap\<close> of \<open>LoadConfig\<close>, as a
  function of the loop variable \<open>rule\<close>: what \<open>rule\<close> holds when the body ends.
\<close>

definition LoadConfig_body :: "TransitRule \<Rightarrow> TransitRule" where
  "LoadConfig_body rule =
     (if length (Remove (Headers rule)) > 0
      then rule\<lparr>Headers := (Headers rule)
             \<lparr>removes := set (map strings_ToLower (Remove (Headers rule)))\<rparr>\<rparr>
      else rule)"

text \<open>
  The loop itself. \<open>TransitMap\<close> is a \<open>map[string]TransitRule\<close>, a map of struct values, and
  the range clause binds \<open>rule\<close> to a copy of each value. The body assigns to that copy
  and never stores it back (there is no \<open>config.TransitMap[host] = rule\<close>), so every
  iteration leaves \<open>config\<close> as it was.
\<close>

fun LoadConfig_range :: "(string \<times> TransitRule) list \<Rightarrow> Config \<Rightarrow> Config" where
  "LoadConfig_range [] config = config"
| "LoadConfig_range ((host, rule) # rest) config =
     (let rule' = LoadConfig_body rule in LoadConfig_range rest config)"

text \<open>
  \<open>LoadConfig\<close>. Its argument is the outcome of \<open>os.ReadFile\<close> followed by
  \<open>json.Unmarshal\<close>: an error, or the decoded configuration. The logger calls are left out.
  The variant of \<open>LoadConfig\<close> that knows \<open>Resolve\<close> has the same loop, with one more
  assignment to the loop variable (the default scheme of \<open>rule.BackendBase\<close>) before the
  one modelled here.
\<close>

definition LoadConfig :: "error + Config \<Rightarrow> error + Config" where
  "LoadConfig decoded =
     (case decoded of
        Inl err \<Rightarrow> Inl err
      | Inr config0 \<Rightarrow>
          (let config = (if Port (Server config0) = 0
                         then config0\<lparr>Server := (Server config0)\<lparr>Port := 8080\<rparr>\<rparr>
                         else config0)
           in Inr (LoadConfig_range (TransitMap config) config)))"

section \<open>The inbound request\<close>

record URL =
  URL_Host :: string
  URL_Path :: string
  URL_RawQuery :: string

record Request =
  Method :: string
  Host :: string
  Url :: URL
  Header :: Header

section \<open>proxy.go: the backend URL\<close>

text \<open>The routing key of \<open>ServeHTTP\<close>: the \<open>Host\<close> up to its first colon.\<close>

definition routingHost :: "string \<Rightarrow> string" where
  "routingHost host =
     (case strings_IndexByte host (CHR '':'') of None \<Rightarrow> host | Some idx \<Rightarrow> take idx host)"

definition hasScheme :: "string \<Rightarrow> bool" where
  "hasScheme s = (strings_HasPrefix s ''http://'' \<or> strings_HasPrefix s ''https://'')"

text \<open>\<open>buildTransitBackendURL\<close>, the same text in src/proxy.go and src/unnamed/part\_000.\<close>

definition buildTransitBackendURL :: "TransitRule \<Rightarrow> Request \<Rightarrow> error + string" where
  "buildTransitBackendURL rule r =
     (let backendBase = strings_TrimSuffix (BackendBase rule) ''/'';
          path = BackendPrefix rule @ URL_Path (Url r);
          path = (if URL_RawQuery (Url r) \<noteq> [] then path @ ''?'' @ URL_RawQuery (Url r)
                  else path);
          path = (if \<not> strings_HasPrefix path ''/'' then ''/'' @ path else path);
          backendBase = (if \<not> strings_HasPrefix backendBase ''http://''
                            \<and> \<not> strings_HasPrefix backendBase ''https://''
                         then ''http://'' @ backendBase else backendBase)
      in Inr (backendBase @ path))"

text \<open>
  The algorithm in the words of the specification, step by step, each step working on
  the result of the one before: strip a trailing slash from the base (one slash, when the
  base ends with one); join prefix and path; insert a leading slash where it is missing;
  append the query; prepend the scheme where the base has none.
\<close>

definition backendURL_spec :: "string \<Rightarrow> string \<Rightarrow> string \<Rightarrow> string \<Rightarrow> string" where
  "backendURL_spec backend_base backend_prefix path query =
     (let base1 = (if strings_HasSuffix backend_base ''/'' then butlast backend_base
                   else backend_base);
          p1 = backend_prefix @ path;
          p2 = (if strings_HasPrefix p1 ''/'' then p1 else ''/'' @ p1);
          p3 = (if query \<noteq> [] then p2 @ ''?'' @ query else p2);
          base2 = (if hasScheme base1 then base1 else ''http://'' @ base1)
      in base2 @ p3)"

text \<open>Scenario A of the specification.\<close>

definition ruleA :: TransitRule where
  "ruleA = \<lparr>BackendBase = ''http://backend:9000'', BackendPrefix = ''/v1'',
            Resolve = \<lparr>DNS = [], IP = []\<rparr>,
            Headers = \<lparr>Set = [], Extra = [], Remove = [], ForwardClient = False,
                       removes = {}\<rparr>\<rparr>"

definition requestA :: Request where
  "requestA = \<lparr>Method = ''GET'', Host = ''api.example.com:8080'',
               Url = \<lparr>URL_Host = [], URL_Path = ''/users'', URL_RawQuery = ''x=1''\<rparr>,
               Header = []\<rparr>"

section \<open>proxy.go: the header pipeline\<close>

text \<open>
  The three loops of \<open>processHeaders\<close>. Each takes the entries of the map it ranges over, in
  the order of the iteration, and the \<open>headers\<close> built so far.

  First loop: \<open>headers[key] = values\<close> for every inbound header whose lower-cased name is
  not a key of \<open>removes\<close>. The assignment is a plain map store: the key is not made
  canonical.
\<close>

fun forwardClientLoop :: "string set \<Rightarrow> Header \<Rightarrow> Header \<Rightarrow> Header" where
  "forwardClientLoop rm [] headers = headers"
| "forwardClientLoop rm ((key, vals) # rest) headers =
     (if strings_ToLower key \<in> rm then forwardClientLoop rm rest headers
      else forwardClientLoop rm rest (AList.update key vals headers))"

text \<open>Second loop, over \<open>Extra\<close>: set the header where \<open>Get\<close> returns \<open>""\<close>.\<close>

fun extraLoop :: "(string \<times> string) list \<Rightarrow> Header \<Rightarrow> Header" where
  "extraLoop [] headers = headers"
| "extraLoop ((key, v) # rest) headers =
     (if Header_Get headers key = [] then extraLoop rest (Header_Set headers key v)
      else extraLoop rest headers)"

text \<open>Third loop, over \<open>Set\<close>: delete where \<open>Get\<close> returns a value, then set.\<close>

fun setLoop :: "(string \<times> string) list \<Rightarrow> Header \<Rightarrow> Header" where
  "setLoop [] headers = headers"
| "setLoop ((key, v) # rest) headers =
     (let headers = (if Header_Get headers key \<noteq> [] then Header_Del headers key else headers)
      in setLoop rest (Header_Set headers key v))"

text \<open>\<open>processHeaders\<close> of src/unnamed/part\_000: the three loops and nothing else.\<close>

definition processHeaders_p0 :: "Request \<Rightarrow> TransitRule \<Rightarrow> Header" where
  "processHeaders_p0 r rule =
     (let headers = [];
          headers = (if ForwardClient (Headers rule)
                     then forwardClientLoop (removes (Headers rule)) (Header r) headers
                     else headers);
          headers = extraLoop (Extra (Headers rule)) headers;
          headers = setLoop (Set (Headers rule)) headers
      in headers)"

text \<open>
  \<open>extractHost\<close> of src/proxy.go. \<open>url.Parse\<close> belongs to the Go library; it is a parameter of
  the model, \<open>Inl\<close> being its error. Only the \<open>Host\<close> of the parsed URL is read.
\<close>

definition extractHost :: "(string \<Rightarrow> error + URL) \<Rightarrow> string \<Rightarrow> string" where
  "extractHost url_Parse backendBase =
     (case url_Parse backendBase of
        Inl err \<Rightarrow> backendBase
      | Inr parsedURL \<Rightarrow> URL_Host parsedURL)"

text \<open>\<open>processHeaders\<close> of src/proxy.go: the three loops, then \<open>headers.Set("Host", ...)\<close>.\<close>

definition processHeaders :: "(string \<Rightarrow> error + URL) \<Rightarrow> Request \<Rightarrow> TransitRule \<Rightarrow> Header" where
  "processHeaders url_Parse r rule =
     (let headers = [];
          headers = (if ForwardClient (Headers rule)
                     then forwardClientLoop (removes (Headers rule)) (Header r) headers
                     else headers);
          headers = extraLoop (Extra (Headers rule)) headers;
          headers = setLoop (Set (Headers rule)) headers
      in Header_Set headers ''Host'' (extractHost url_Parse (BackendBase rule)))"




definition requestB :: Request where
  "requestB = \<lparr>Method = ''GET'', Host = ''b.example.com'',
               Url = \<lparr>URL_Host = [], URL_Path = ''/'', URL_RawQuery = []\<rparr>,
               Header = [(''Authorization'', [''Bearer t'']), (''X-Foo'', [''1''])]\<rparr>"


text \<open>
  A configuration as \<open>json.Unmarshal\<close> leaves it (the \<open>removes\<close> field is not decoded:
  its tag is \<open>json:"-"\<close>): one route whose policy forwards the client's headers and
  lists \<open>authorization\<close> for removal.
\<close>

definition ruleC1 :: TransitRule where
  "ruleC1 = \<lparr>BackendBase = ''http://backend:9000'', BackendPrefix = [],
             Resolve = \<lparr>DNS = [], IP = []\<rparr>,
             Headers = \<lparr>Set = [], Extra = [], Remove = [''authorization''],
                        ForwardClient = True, removes = {}\<rparr>\<rparr>"

definition decodedC1 :: Config where
  "decodedC1 = \<lparr>Server = \<lparr>Port = 8080, Public = False\<rparr>, Log = \<lparr>Level = [], File = []\<rparr>,
     TransitMap = [(''api.example.com'', ruleC1)]\<rparr>"



section \<open>proxy.go: the trace and its rendering\<close>

text \<open>
  The errors that \<open>forwardRequest\<close> records on the trace, one constructor for each
  \<open>fmt.Errorf\<close> of the source, carrying the cause (or the host); \<open>Error_text\<close> is the
  message \<open>Error()\<close> returns.
\<close>

datatype forward_error =
    RouteNotFound string
  | PoolNotFound string
  | URLBuildFailed error
  | ReadRequestBodyFailed error
  | NewRequestFailed error
  | DispatchFailed error
  | ReadResponseBodyFailed error
  | WriteResponseFailed error

definition msg_RouteNotFound :: string where
  "msg_RouteNotFound = [CHR 0xE6, CHR 0x9C, CHR 0xAA, CHR 0xE6, CHR 0x89, CHR 0xBE, CHR 0xE5,
     CHR 0x88, CHR 0xB0, CHR 0xE8, CHR 0xBD, CHR 0xAC, CHR 0xE5, CHR 0x8F, CHR 0x91, CHR 0xE8,
     CHR 0xA7, CHR 0x84, CHR 0xE5, CHR 0x88, CHR 0x99]"

definition msg_PoolNotFound :: string where
  "msg_PoolNotFound = [CHR 0xE6, CHR 0x9C, CHR 0x8D, CHR 0xE5, CHR 0x8A, CHR 0xA1, CHR 0xE5,
     CHR 0x99, CHR 0xA8, CHR 0xE6, CHR 0x9C, CHR 0xAA, CHR 0xE8, CHR 0xBF, CHR 0x9E, CHR 0xE6,
     CHR 0x8E, CHR 0xA5]"

definition msg_URLBuildFailed :: string where
  "msg_URLBuildFailed = [CHR 0xE6, CHR 0x9E, CHR 0x84, CHR 0xE5, CHR 0xBB, CHR 0xBA, CHR 0xE7,
     CHR 0x9B, CHR 0xAE, CHR 0xE6, CHR 0xA0, CHR 0x87, CHR 0x55, CHR 0x52, CHR 0x4C, CHR 0xE5,
     CHR 0xA4, CHR 0xB1, CHR 0xE8, CHR 0xB4, CHR 0xA5]"

definition msg_ReadRequestBodyFailed :: string where
  "msg_ReadRequestBodyFailed = [CHR 0xE8, CHR 0xAF, CHR 0xBB, CHR 0xE5, CHR 0x8F, CHR 0x96,
     CHR 0xE8, CHR 0xAF, CHR 0xB7, CHR 0xE6, CHR 0xB1, CHR 0x82, CHR 0xE4, CHR 0xBD, CHR 0x93,
     CHR 0xE5, CHR 0xA4, CHR 0xB1, CHR 0xE8, CHR 0xB4, CHR 0xA5]"

definition msg_NewRequestFailed :: string where
  "msg_NewRequestFailed = [CHR 0xE5, CHR 0x88, CHR 0x9B, CHR 0xE5, CHR 0xBB, CHR 0xBA, CHR 0xE8,
     CHR 0xAF, CHR 0xB7, CHR 0xE6, CHR 0xB1, CHR 0x82, CHR 0xE5, CHR 0xA4, CHR 0xB1, CHR 0xE8,
     CHR 0xB4, CHR 0xA5]"

definition msg_DispatchFailed :: string where
  "msg_DispatchFailed = [CHR 0xE8, CHR 0xBD, CHR 0xAC, CHR 0xE5, CHR 0x8F, CHR 0x91, CHR 0xE8,
     CHR 0xAF, CHR 0xB7, CHR 0xE6, CHR 0xB1, CHR 0x82, CHR 0xE5, CHR 0xA4, CHR 0xB1, CHR 0xE8,
     CHR 0xB4, CHR 0xA5]"

definition msg_ReadResponseBodyFailed :: string where
  "msg_ReadResponseBodyFailed = [CHR 0xE8, CHR 0xAF, CHR 0xBB, CHR 0xE5, CHR 0x8F, CHR 0x96,
     CHR 0xE5, CHR 0x93, CHR 0x8D, CHR 0xE5, CHR 0xBA, CHR 0x94, CHR 0xE4, CHR 0xBD, CHR 0x93,
     CHR 0xE5, CHR 0xA4, CHR 0xB1, CHR 0xE8, CHR 0xB4, CHR 0xA5]"

definition msg_WriteResponseFailed :: string where
  "msg_WriteResponseFailed = [CHR 0xE5, CHR 0x86, CHR 0x99, CHR 0xE5, CHR 0x85, CHR 0xA5,
     CHR 0xE5, CHR 0x93, CHR 0x8D, CHR 0xE5, CHR 0xBA, CHR 0x94, CHR 0xE4, CHR 0xBD, CHR 0x93,
     CHR 0xE5, CHR 0xA4, CHR 0xB1, CHR 0xE8, CHR 0xB4, CHR 0xA5]"

fun Error_text :: "forward_error \<Rightarrow> string" where
  "Error_text (RouteNotFound host) = msg_RouteNotFound @ '': '' @ host"
| "Error_text (PoolNotFound host) = msg_PoolNotFound @ '': '' @ host"
| "Error_text (URLBuildFailed err) = msg_URLBuildFailed @ '': '' @ err"
| "Error_text (ReadRequestBodyFailed err) = msg_ReadRequestBodyFailed @ '': '' @ err"
| "Error_text (NewRequestFailed err) = msg_NewRequestFailed @ '': '' @ err"
| "Error_text (DispatchFailed err) = msg_DispatchFailed @ '': '' @ err"
| "Error_text (ReadResponseBodyFailed err) = msg_ReadResponseBodyFailed @ '': '' @ err"
| "Error_text (WriteResponseFailed err) = msg_WriteResponseFailed @ '': '' @ err"

text \<open>\<open>ProxyTrace\<close>. Times are nanoseconds; \<open>Error\<close> is \<open>None\<close> for Go's nil.\<close>

record ProxyTrace =
  StartTime :: int
  Duration :: int
  RequestURL :: string
  BackendURL :: string
  Trace_Method :: string
  StatusCode :: int
  Error :: "forward_error option"
  RequestHeaders :: Header
  TransitHeaders :: Header
  ResponseHeaders :: Header
  RequestBody :: bytes
  ResponseBody :: bytes

text \<open>
  What \<open>String\<close> calls from outside the repository, as parameters of the model:
  \<^item> \<open>gzip_Reset\<close>: \<open>gzip.Reader.Reset\<close> on the body, which reads the gzip header and returns
    its error;
  \<^item> \<open>gzip_ReadAll\<close>: \<open>io.ReadAll\<close> on the reader after a successful \<open>Reset\<close>, the bytes read
    and the error;
  \<^item> \<open>humanize_IBytes\<close>: \<open>humanize.IBytes\<close>, which formats with floating point;
  \<^item> \<open>Duration_String\<close>: the \<open>%v\<close> rendering of a \<open>time.Duration\<close>.
\<close>

record Library =
  gzip_Reset :: "bytes \<Rightarrow> error option"
  gzip_ReadAll :: "bytes \<Rightarrow> bytes \<times> error option"
  humanize_IBytes :: "nat \<Rightarrow> string"
  Duration_String :: "int \<Rightarrow> string"

text \<open>\<open>decompress\<close>. The pooled reader is reset from the body before it is read, so the
  result depends on the body alone.\<close>

definition decompress :: "Library \<Rightarrow> bytes \<Rightarrow> bytes \<times> error option" where
  "decompress L body =
     (case gzip_Reset L body of
        Some err \<Rightarrow> ([], Some err)
      | None \<Rightarrow> gzip_ReadAll L body)"

text \<open>The \<open>%d\<close> rendering of an integer.\<close>

fun decimal :: "nat \<Rightarrow> string" where
  "decimal n = (if n < 10 then [''0123456789'' ! n]
                else decimal (n div 10) @ [''0123456789'' ! (n mod 10)])"

definition fmt_d :: "int \<Rightarrow> string" where
  "fmt_d i = (if i < 0 then ''-'' @ decimal (nat (- i)) else decimal (nat i))"

text \<open>
  The header lines of \<open>String\<close>: one \<open>"key: v1,v2"\<close> for each entry, sorted by
  \<open>sort.Strings\<close> (bytewise lexicographic order) and joined with \<open>"; "\<close>. The same code
  renders the request, the transit and the response headers.
\<close>

definition headerString :: "Header \<Rightarrow> string" where
  "headerString h =
     strings_Join (sort (map (\<lambda>(key, vals). key @ '': '' @ strings_Join vals '','') h)) ''; ''"

definition isTextType :: "string \<Rightarrow> bool" where
  "isTextType contentType =
     (strings_Contains (strings_ToLower contentType) ''application/json''
      \<or> strings_Contains (strings_ToLower contentType) ''application/x-www-form-urlencoded''
      \<or> strings_Contains (strings_ToLower contentType) ''text/'')"

text \<open>
  The body block of \<open>String\<close>, which the source writes twice with the same text: once for
  \<open>RequestHeaders\<close> and \<open>RequestBody\<close>, once for \<open>ResponseHeaders\<close> and \<open>ResponseBody\<close>. In the
  placeholder of a failed decompression, \<open>body\<close> is still the stored body.
\<close>

definition bodyString :: "Library \<Rightarrow> Header \<Rightarrow> bytes \<Rightarrow> string" where
  "bodyString L headers stored =
     (let contentType = Header_Get headers ''Content-Type'' in
      if isTextType contentType then
        (let body = stored;
             contentEncoding = Header_Get headers ''Content-Encoding''
         in if strings_Contains (strings_ToLower contentEncoding) ''gzip''
            then (case decompress L stored of
                    (decompressed, None) \<Rightarrow> decompressed
                  | (decompressed, Some err) \<Rightarrow>
                      ''[gzip '' @ contentType @ '' '' @ humanize_IBytes L (length body) @ '']'')
            else body)
      else if contentType \<noteq> [] \<and> length stored > 0
        then ''['' @ contentType @ '' '' @ humanize_IBytes L (length stored) @ '']''
      else [])"

definition reqBodyString :: "Library \<Rightarrow> ProxyTrace \<Rightarrow> string" where
  "reqBodyString L p = bodyString L (RequestHeaders p) (RequestBody p)"

definition rspBodyString :: "Library \<Rightarrow> ProxyTrace \<Rightarrow> string" where
  "rspBodyString L p = bodyString L (ResponseHeaders p) (ResponseBody p)"

text \<open>The labels of the rendered line, as UTF-8 bytes.\<close>

definition label_duration :: string where
  "label_duration = [CHR 0xE8, CHR 0x80, CHR 0x97, CHR 0xE6, CHR 0x97, CHR 0xB6]"

definition label_status :: string where
  "label_status = [CHR 0xE7, CHR 0x8A, CHR 0xB6, CHR 0xE6, CHR 0x80, CHR 0x81]"

definition label_reqHeaders :: string where
  "label_reqHeaders = [CHR 0xE8, CHR 0xAF, CHR 0xB7, CHR 0xE6, CHR 0xB1, CHR 0x82, CHR 0xE5,
     CHR 0xA4, CHR 0xB4]"

definition label_trsHeaders :: string where
  "label_trsHeaders = [CHR 0xE8, CHR 0xBD, CHR 0xAC, CHR 0xE5, CHR 0x8F, CHR 0x91, CHR 0xE5,
     CHR 0xA4, CHR 0xB4]"

definition label_reqBody :: string where
  "label_reqBody = [CHR 0xE8, CHR 0xAF, CHR 0xB7, CHR 0xE6, CHR 0xB1, CHR 0x82, CHR 0xE4,
     CHR 0xBD, CHR 0x93]"

definition label_rspHeaders :: string where
  "label_rspHeaders = [CHR 0xE5, CHR 0x93, CHR 0x8D, CHR 0xE5, CHR 0xBA, CHR 0x94, CHR 0xE5,
     CHR 0xA4, CHR 0xB4]"

definition label_rspBody :: string where
  "label_rspBody = [CHR 0xE5, CHR 0x93, CHR 0x8D, CHR 0xE5, CHR 0xBA, CHR 0x94, CHR 0xE4,
     CHR 0xBD, CHR 0x93]"

text \<open>The first \<open>WriteString\<close> of \<open>String\<close>: method, URLs, duration and status.\<close>

definition traceHead :: "Library \<Rightarrow> ProxyTrace \<Rightarrow> string" where
  "traceHead L p =
     Trace_Method p @ '' '' @ RequestURL p @ '' -> '' @ BackendURL p
     @ '' | '' @ label_duration @ '': '' @ Duration_String L (Duration p)
     @ '' | '' @ label_status @ '': '' @ fmt_d (StatusCode p)"

text \<open>\<open>ProxyTrace.String\<close>; \<open>builder\<close> is the text written to the \<open>strings.Builder\<close> so far.\<close>

definition String :: "Library \<Rightarrow> ProxyTrace \<Rightarrow> string" where
  "String L p =
     (let reqHeaderString = headerString (RequestHeaders p);
          trsHeaderString = headerString (TransitHeaders p);
          reqBody = reqBodyString L p;
          rspHeaderString = headerString (ResponseHeaders p);
          rspBody = rspBodyString L p;
          builder = traceHead L p;
          builder = (if reqHeaderString \<noteq> []
                     then builder @ '' | '' @ label_reqHeaders @ '': '' @ reqHeaderString
                     else builder);
          builder = (if trsHeaderString \<noteq> [] \<and> trsHeaderString \<noteq> reqHeaderString
                     then builder @ '' | '' @ label_trsHeaders @ '': '' @ trsHeaderString
                     else builder);
          builder = (if reqBody \<noteq> []
                     then builder @ '' | '' @ label_reqBody @ '': '' @ reqBody
                     else builder);
          builder = (if rspHeaderString \<noteq> []
                     then builder @ '' | '' @ label_rspHeaders @ '': '' @ rspHeaderString
                     else builder);
          builder = (if rspBody \<noteq> []
                     then builder @ '' | '' @ label_rspBody @ '': '' @ rspBody
                     else builder)
      in builder)"

text \<open>
  The rendering in the words of the specification: a segment is left out entirely when
  its content is empty, and the line is the head followed by the five segments in order,
  the transit headers being left out when their text is the text of the request headers.
\<close>

definition segment :: "string \<Rightarrow> string \<Rightarrow> string" where
  "segment label content = (if content = [] then [] else '' | '' @ label @ '': '' @ content)"

definition String_spec :: "Library \<Rightarrow> ProxyTrace \<Rightarrow> string" where
  "String_spec L p =
     traceHead L p
     @ segment label_reqHeaders (headerString (RequestHeaders p))
     @ (if headerString (TransitHeaders p) = headerString (RequestHeaders p) then []
        else segment label_trsHeaders (headerString (TransitHeaders p)))
     @ segment label_reqBody (reqBodyString L p)
     @ segment label_rspHeaders (headerString (ResponseHeaders p))
     @ segment label_rspBody (rspBodyString L p)"

text \<open>
  An example for the rendering: the 27 bytes that gzip produces for the JSON text
  \<open>{"a":1}\<close>, and a library that decodes exactly this body and rejects every other one.
\<close>

definition gzJson :: bytes where
  "gzJson = [CHR 0x1F, CHR 0x8B, CHR 0x08, CHR 0x00, CHR 0x00, CHR 0x00, CHR 0x00, CHR 0x00,
     CHR 0x02, CHR 0xFF, CHR 0xAB, CHR 0x56, CHR 0x4A, CHR 0x54, CHR 0xB2, CHR 0x32, CHR 0xAC,
     CHR 0x05, CHR 0x00, CHR 0xAF, CHR 0xAC, CHR 0x1B, CHR 0x56, CHR 0x07, CHR 0x00, CHR 0x00,
     CHR 0x00]"

definition plainJson :: bytes where
  "plainJson = [CHR 0x7B, CHR 0x22, CHR 0x61, CHR 0x22, CHR 0x3A, CHR 0x31, CHR 0x7D]"

definition exampleLibrary :: Library where
  "exampleLibrary =
     \<lparr>gzip_Reset = (\<lambda>body. if body = gzJson then None else Some ''gzip: invalid header''),
      gzip_ReadAll = (\<lambda>body. if body = gzJson then (plainJson, None)
                              else ([], Some ''unexpected EOF'')),
      humanize_IBytes = (\<lambda>n. decimal n @ '' B''),
      Duration_String = (\<lambda>d. fmt_d d @ ''ns'')\<rparr>"

definition gzipHeaders :: Header where
  "gzipHeaders = [(''Content-Type'', [''application/json'']), (''Content-Encoding'', [''gzip''])]"

definition traceGz :: ProxyTrace where
  "traceGz = \<lparr>StartTime = 0, Duration = 0, RequestURL = ''api.example.com/users'',
      BackendURL = ''http://backend:9000/v1/users'', Trace_Method = ''POST'', StatusCode = 200,
      Error = None, RequestHeaders = gzipHeaders, TransitHeaders = gzipHeaders,
      ResponseHeaders = gzipHeaders, RequestBody = gzJson, ResponseBody = ''not gzip''\<rparr>"

section \<open>proxy.go: the connection pools\<close>

text \<open>
  A \<open>*http.Client\<close> is a pointer: \<open>client_addr\<close> tells which allocation it points to (each
  \<open>&http.Client{...}\<close> takes the next address), \<open>client_dial\<close> is the \<open>DialContext\<close> of its
  transport. The limits and timeouts of the transport are the same constants for every
  client and are left out. \<open>clients\<close> is the map \<open>map[string]*http.Client\<close>.
\<close>

datatype Dialer = SystemDialer | IPDialer string | DnsResolvDialer string

record Client =
  client_addr :: nat
  client_dial :: Dialer

record ProxyHandler =
  config :: Config
  clients :: "(string \<times> Client) list"

text \<open>\<open>extractDomain\<close> of src/proxy.go.\<close>

definition extractDomain :: "(string \<Rightarrow> error + URL) \<Rightarrow> string \<Rightarrow> string" where
  "extractDomain url_Parse backendBase0 =
     (let backendBase = (if \<not> strings_HasPrefix backendBase0 ''http://''
                            \<and> \<not> strings_HasPrefix backendBase0 ''https://''
                         then ''http://'' @ backendBase0 else backendBase0)
      in case url_Parse backendBase of
           Inl err \<Rightarrow> backendBase
         | Inr parsedURL \<Rightarrow> URL_Host parsedURL)"

text \<open>
  \<open>initializeClientPools\<close> of src/proxy.go, over the rules in iteration order, with the map
  built so far (\<open>pool\<close>, the field \<open>p.clients\<close>) and the next free address. The check that skips a rule looks the map up
  under \<open>rule.BackendBase\<close>; the store is under the extracted domain.
\<close>

fun initializeClientPools :: "(string \<Rightarrow> error + URL) \<Rightarrow> (string \<times> TransitRule) list \<Rightarrow>
    (string \<times> Client) list \<Rightarrow> nat \<Rightarrow> (string \<times> Client) list" where
  "initializeClientPools url_Parse [] pool fresh = pool"
| "initializeClientPools url_Parse ((host, rule) # rest) pool fresh =
     (if map_of pool (BackendBase rule) \<noteq> None
      then initializeClientPools url_Parse rest pool fresh
      else (let domain = extractDomain url_Parse (BackendBase rule);
                client = \<lparr>client_addr = fresh, client_dial = SystemDialer\<rparr>
            in initializeClientPools url_Parse rest (AList.update domain client pool)
                 (Suc fresh)))"

definition NewProxyHandler :: "(string \<Rightarrow> error + URL) \<Rightarrow> Config \<Rightarrow> ProxyHandler" where
  "NewProxyHandler url_Parse cfg =
     \<lparr>config = cfg, clients = initializeClientPools url_Parse (TransitMap cfg) [] 0\<rparr>"

text \<open>\<open>getClientForDomain\<close>: \<open>None\<close> is the nil pointer that a missing key yields.\<close>

definition getClientForDomain :: "(string \<Rightarrow> error + URL) \<Rightarrow> ProxyHandler \<Rightarrow> string \<Rightarrow>
    Client option" where
  "getClientForDomain url_Parse p backendBase =
     map_of (clients p) (extractDomain url_Parse backendBase)"

text \<open>\<open>initializeClientPools\<close> of src/unnamed/part\_000: one client for each frontend host,
  its dialer chosen from \<open>Resolve\<close>.\<close>

fun initializeClientPools_p0 :: "(string \<times> TransitRule) list \<Rightarrow> (string \<times> Client) list \<Rightarrow> nat \<Rightarrow>
    (string \<times> Client) list" where
  "initializeClientPools_p0 [] pool fresh = pool"
| "initializeClientPools_p0 ((host, rule) # rest) pool fresh =
     (let dial = (if IP (Resolve rule) \<noteq> [] then IPDialer (IP (Resolve rule))
                  else if DNS (Resolve rule) \<noteq> [] then DnsResolvDialer (DNS (Resolve rule))
                  else SystemDialer);
          client = \<lparr>client_addr = fresh, client_dial = dial\<rparr>
      in initializeClientPools_p0 rest (AList.update host client pool) (Suc fresh))"

definition NewProxyHandler_p0 :: "Config \<Rightarrow> ProxyHandler" where
  "NewProxyHandler_p0 cfg =
     \<lparr>config = cfg, clients = initializeClientPools_p0 (TransitMap cfg) [] 0\<rparr>"

text \<open>
  A stand-in for \<open>url.Parse\<close> in the examples. For a URL of the shape
  \<open>http(s)://host[:port][/path]\<close> it returns the host with its port, as \<open>url.Parse\<close> does;
  any other string is taken as a path, with an empty host.
\<close>

definition exampleParse :: "string \<Rightarrow> error + URL" where
  "exampleParse s =
     (let rest = (if strings_HasPrefix s ''http://'' then drop 7 s
                  else if strings_HasPrefix s ''https://'' then drop 8 s else [])
      in if hasScheme s
         then Inr \<lparr>URL_Host = takeWhile (\<lambda>c. c \<noteq> CHR ''/'') rest,
                   URL_Path = dropWhile (\<lambda>c. c \<noteq> CHR ''/'') rest, URL_RawQuery = []\<rparr>
         else Inr \<lparr>URL_Host = [], URL_Path = s, URL_RawQuery = []\<rparr>)"



text \<open>
  Invariants of the pool loops: every address in the map is below the next free one; no
  client is stored under two keys; every key is a domain that \<open>extractDomain\<close> maps to
  itself.
\<close>

definition fresh_bound :: "(string \<times> Client) list \<Rightarrow> nat \<Rightarrow> bool" where
  "fresh_bound pool fresh = (\<forall>k c. map_of pool k = Some c \<longrightarrow> client_addr c < fresh)"

definition one_key_per_client :: "(string \<times> Client) list \<Rightarrow> bool" where
  "one_key_per_client pool =
     (\<forall>k k' c c'. map_of pool k = Some c \<and> map_of pool k' = Some c'
        \<and> client_addr c = client_addr c' \<longrightarrow> k = k')"

definition fixed_keys :: "(string \<Rightarrow> error + URL) \<Rightarrow> (string \<times> Client) list \<Rightarrow> bool" where
  "fixed_keys P pool = (\<forall>k \<in> dom (map_of pool). extractDomain P k = k)"

section \<open>proxy.go: forwarding one request\<close>

text \<open>
  The world of one request: what the calls that leave the process return.
  \<^item> \<open>now\<close>, \<open>elapsed\<close>: \<open>time.Now()\<close> and \<open>time.Since(trace.StartTime)\<close>;
  \<^item> \<open>readRequestBody\<close>: \<open>io.ReadAll(r.Body)\<close>;
  \<^item> \<open>newRequest\<close>: the error of \<open>http.NewRequest(method, url, body)\<close>;
  \<^item> \<open>roundTrip\<close>: \<open>client.Do(req)\<close>, with \<open>Resp_Body\<close> what \<open>io.ReadAll(resp.Body)\<close> will return;
  \<^item> \<open>clientWrite\<close>: a write of the given bytes to the client's connection, the number of
    bytes it takes and the error.
\<close>

record OutRequest =
  Out_Method :: string
  Out_URL :: string
  Out_Header :: Header
  Out_Body :: bytes

record Response =
  Resp_StatusCode :: int
  Resp_Header :: Header
  Resp_Body :: "error + bytes"

record World =
  now :: int
  elapsed :: int
  readRequestBody :: "error + bytes"
  newRequest :: "string \<Rightarrow> string \<Rightarrow> error option"
  roundTrip :: "Client \<Rightarrow> OutRequest \<Rightarrow> error + Response"
  clientWrite :: "bytes \<Rightarrow> nat \<times> error option"

text \<open>
  The \<open>http.ResponseWriter\<close> of the server. \<open>W_Header\<close> is the map that \<open>w.Header()\<close>
  returns; \<open>W_Status\<close> is the status line sent to the client, \<open>None\<close> while none was sent;
  \<open>W_Sent\<close> is the header map as it was sent with the status line; \<open>W_Body\<close> is the body
  bytes the connection took. The status line is sent once: a later \<open>WriteHeader\<close> changes
  nothing (the server logs it as superfluous), and so do later changes of \<open>W_Header\<close>.
\<close>

record ResponseWriter =
  W_Header :: Header
  W_Status :: "int option"
  W_Sent :: Header
  W_Body :: bytes

definition newResponseWriter :: ResponseWriter where
  "newResponseWriter = \<lparr>W_Header = [], W_Status = None, W_Sent = [], W_Body = []\<rparr>"

definition WriteHeader :: "int \<Rightarrow> ResponseWriter \<Rightarrow> ResponseWriter" where
  "WriteHeader code w =
     (case W_Status w of
        Some sent \<Rightarrow> w
      | None \<Rightarrow> w\<lparr>W_Status := Some code, W_Sent := W_Header w\<rparr>)"

text \<open>\<open>w.Write(data)\<close>: sends the status line \<open>200\<close> when none was sent yet.\<close>

definition Write :: "World \<Rightarrow> bytes \<Rightarrow> ResponseWriter \<Rightarrow> ResponseWriter \<times> error option" where
  "Write world data w0 =
     (let w = WriteHeader 200 w0;
          (n, err) = clientWrite world data
      in (w\<lparr>W_Body := W_Body w @ take n data\<rparr>, err))"

text \<open>\<open>http.Error(w, error, code)\<close>: sets the content type, writes the status line and
  prints the message with a newline; the result of that print is dropped. (Recent
  versions of the library also delete \<open>Content-Length\<close> from the header map first; nothing
  below depends on it.)\<close>

definition http_Error :: "World \<Rightarrow> ResponseWriter \<Rightarrow> string \<Rightarrow> int \<Rightarrow> ResponseWriter" where
  "http_Error world w0 msg code =
     (let h = Header_Set (W_Header w0) ''Content-Type'' ''text/plain; charset=utf-8'';
          h = Header_Set h ''X-Content-Type-Options'' ''nosniff'';
          w = WriteHeader code (w0\<lparr>W_Header := h\<rparr>)
      in fst (Write world (msg @ [CHR 0x0A]) w))"

text \<open>The calls the claims speak about, in the order in which a request makes them: the
  lookup of a pooled client, the dispatch to the backend, and the calls of the logger.\<close>

datatype event =
    PoolLookup string
  | ClientDo Client OutRequest
  | Log_Debug ProxyTrace
  | Log_Warnf_failed string string int string
  | Log_Infof_done string string int
  | Log_Infof_noRoute string
  | Log_Infof_urlFailed error

text \<open>A call returns, or panics (a nil pointer dereference).\<close>

datatype 'a outcome = Returns 'a | Panics

definition msg_noRoute :: string where
  "msg_noRoute = [CHR 0xE8, CHR 0xBD, CHR 0xAC, CHR 0xE5, CHR 0x8F, CHR 0x91, CHR 0xE8, CHR 0xA7,
     CHR 0x84, CHR 0xE5, CHR 0x88, CHR 0x99, CHR 0xE6, CHR 0x9C, CHR 0xAA, CHR 0xE6, CHR 0x89,
     CHR 0xBE, CHR 0xE5, CHR 0x88, CHR 0xB0]"

definition msg_internal :: string where
  "msg_internal = [CHR 0xE5, CHR 0x86, CHR 0x85, CHR 0xE9, CHR 0x83, CHR 0xA8, CHR 0xE9, CHR 0x94,
     CHR 0x99, CHR 0xE8, CHR 0xAF, CHR 0xAF]"

text \<open>The loop that copies the response headers: \<open>w.Header()[key] = values\<close>.\<close>

fun copyHeaders :: "Header \<Rightarrow> Header \<Rightarrow> Header" where
  "copyHeaders [] h = h"
| "copyHeaders ((key, vals) # rest) h = copyHeaders rest (AList.update key vals h)"

text \<open>
  The end of \<open>forwardRequest\<close>, the same in both variants: from \<open>client.Do(req)\<close> on. It
  returns the trace, the response writer and the calls made.
\<close>

definition dispatch :: "World \<Rightarrow> ResponseWriter \<Rightarrow> ProxyTrace \<Rightarrow> Client \<Rightarrow> OutRequest \<Rightarrow>
    ProxyTrace \<times> ResponseWriter \<times> event list" where
  "dispatch world w trace0 client req =
     (case roundTrip world client req of
        Inl err \<Rightarrow> (trace0\<lparr>Error := Some (DispatchFailed err)\<rparr>, w, [ClientDo client req])
      | Inr resp \<Rightarrow>
          (let trace = trace0\<lparr>StatusCode := Resp_StatusCode resp,
                              ResponseHeaders := Resp_Header resp\<rparr>
           in case Resp_Body resp of
                Inl err \<Rightarrow>
                  (trace\<lparr>Error := Some (ReadResponseBodyFailed err)\<rparr>, w, [ClientDo client req])
              | Inr rspBody \<Rightarrow>
                  (let trace = trace\<lparr>ResponseBody := rspBody\<rparr>;
                       w = w\<lparr>W_Header := copyHeaders (Resp_Header resp) (W_Header w)\<rparr>;
                       w = WriteHeader (Resp_StatusCode resp) w;
                       (w, werr) = Write world rspBody w
                   in case werr of
                        Some err \<Rightarrow>
                          (trace\<lparr>Error := Some (WriteResponseFailed err)\<rparr>, w,
                           [ClientDo client req])
                      | None \<Rightarrow> (trace, w, [ClientDo client req]))))"

text \<open>The trace as \<open>forwardRequest\<close> creates it; the fields not named are zero values.\<close>

definition newTrace :: "World \<Rightarrow> string \<Rightarrow> string \<Rightarrow> Request \<Rightarrow> ProxyTrace" where
  "newTrace world host targetURL r =
     \<lparr>StartTime = now world, Duration = 0, RequestURL = host @ URL_Path (Url r),
      BackendURL = targetURL, Trace_Method = Method r, StatusCode = 0, Error = None,
      RequestHeaders = Header r, TransitHeaders = [], ResponseHeaders = [],
      RequestBody = [], ResponseBody = []\<rparr>"

text \<open>\<open>forwardRequest\<close> of src/proxy.go. A nil client makes \<open>client.Do\<close> panic.\<close>

definition forwardRequest :: "(string \<Rightarrow> error + URL) \<Rightarrow> World \<Rightarrow> ProxyHandler \<Rightarrow>
    ResponseWriter \<Rightarrow> Request \<Rightarrow> string \<Rightarrow> TransitRule \<Rightarrow>
    (ProxyTrace \<times> ResponseWriter \<times> event list) outcome" where
  "forwardRequest url_Parse world p w r targetURL rule =
     (let trace = newTrace world (Host r) targetURL r
      in case readRequestBody world of
           Inl err \<Rightarrow> Returns (trace\<lparr>Error := Some (ReadRequestBodyFailed err)\<rparr>, w, [])
         | Inr reqBody \<Rightarrow>
             (let trace = trace\<lparr>RequestBody := reqBody\<rparr>
              in case newRequest world (Method r) targetURL of
                   Some err \<Rightarrow> Returns (trace\<lparr>Error := Some (NewRequestFailed err)\<rparr>, w, [])
                 | None \<Rightarrow>
                     (let req = \<lparr>Out_Method = Method r, Out_URL = targetURL,
                                 Out_Header = processHeaders url_Parse r rule,
                                 Out_Body = reqBody\<rparr>;
                          trace = trace\<lparr>TransitHeaders := Out_Header req\<rparr>;
                          domain = extractDomain url_Parse (BackendBase rule)
                      in case getClientForDomain url_Parse p (BackendBase rule) of
                           None \<Rightarrow> Panics
                         | Some client \<Rightarrow>
                             (let (trace, w, evs) = dispatch world w trace client req
                              in Returns (trace, w, PoolLookup domain # evs)))))"

text \<open>The logging and the answer at the end of \<open>ServeHTTP\<close>, the same in both variants.\<close>

definition finish :: "World \<Rightarrow> ProxyTrace \<times> ResponseWriter \<times> event list \<Rightarrow>
    ResponseWriter \<times> event list" where
  "finish world res =
     (let (trace0, w, evs) = res;
          trace = trace0\<lparr>Duration := elapsed world\<rparr>
      in case Error trace of
           Some e \<Rightarrow>
             (http_Error world w (Error_text e) 500,
              evs @ [Log_Debug trace,
                     Log_Warnf_failed (Trace_Method trace) (RequestURL trace) (Duration trace)
                       (Error_text e)])
         | None \<Rightarrow>
             (w, evs @ [Log_Debug trace,
                        Log_Infof_done (Trace_Method trace) (RequestURL trace)
                          (Duration trace)]))"

text \<open>\<open>ServeHTTP\<close> of src/proxy.go, on a fresh response writer.\<close>

definition ServeHTTP :: "(string \<Rightarrow> error + URL) \<Rightarrow> World \<Rightarrow> ProxyHandler \<Rightarrow> Request \<Rightarrow>
    (ResponseWriter \<times> event list) outcome" where
  "ServeHTTP url_Parse world p r =
     (let w = newResponseWriter;
          host = routingHost (Host r)
      in case map_of (TransitMap (config p)) host of
           None \<Rightarrow> Returns (http_Error world w msg_noRoute 404, [Log_Infof_noRoute host])
         | Some rule \<Rightarrow>
             (case buildTransitBackendURL rule r of
                Inl err \<Rightarrow> Returns (http_Error world w msg_internal 500, [Log_Infof_urlFailed err])
              | Inr targetURL \<Rightarrow>
                  (case forwardRequest url_Parse world p w r targetURL rule of
                     Panics \<Rightarrow> Panics
                   | Returns res \<Rightarrow> Returns (finish world res))))"

text \<open>\<open>forwardRequest\<close> of src/unnamed/part\_000: it looks the route and the client up
  itself, and builds the URL.\<close>

definition forwardRequest_p0 :: "World \<Rightarrow> ProxyHandler \<Rightarrow> ResponseWriter \<Rightarrow> Request \<Rightarrow> string \<Rightarrow>
    ProxyTrace \<times> ResponseWriter \<times> event list" where
  "forwardRequest_p0 world p w r host =
     (let trace = newTrace world host [] r
      in case map_of (TransitMap (config p)) host of
           None \<Rightarrow> (trace\<lparr>Error := Some (RouteNotFound host)\<rparr>, w, [])
         | Some rule \<Rightarrow>
             (case map_of (clients p) host of
                None \<Rightarrow> (trace\<lparr>Error := Some (PoolNotFound host)\<rparr>, w, [PoolLookup host])
              | Some client \<Rightarrow>
                  (case buildTransitBackendURL rule r of
                     Inl err \<Rightarrow> (trace\<lparr>Error := Some (URLBuildFailed err)\<rparr>, w, [PoolLookup host])
                   | Inr targetURL \<Rightarrow>
                       (let trace = trace\<lparr>BackendURL := targetURL\<rparr>
                        in case readRequestBody world of
                             Inl err \<Rightarrow>
                               (trace\<lparr>Error := Some (ReadRequestBodyFailed err)\<rparr>, w,
                                [PoolLookup host])
                           | Inr reqBody \<Rightarrow>
                               (let trace = trace\<lparr>RequestBody := reqBody\<rparr>
                                in case newRequest world (Method r) targetURL of
                                     Some err \<Rightarrow>
                                       (trace\<lparr>Error := Some (NewRequestFailed err)\<rparr>, w,
                                        [PoolLookup host])
                                   | None \<Rightarrow>
                                       (let req = \<lparr>Out_Method = Method r, Out_URL = targetURL,
                                                   Out_Header = processHeaders_p0 r rule,
                                                   Out_Body = reqBody\<rparr>;
                                            trace = trace\<lparr>TransitHeaders := Out_Header req\<rparr>;
                                            (trace, w, evs) = dispatch world w trace client req
                                        in (trace, w, PoolLookup host # evs)))))))"

text \<open>\<open>ServeHTTP\<close> of src/unnamed/part\_000.\<close>

definition ServeHTTP_p0 :: "World \<Rightarrow> ProxyHandler \<Rightarrow> Request \<Rightarrow> ResponseWriter \<times> event list" where
  "ServeHTTP_p0 world p r =
     (let w = newResponseWriter;
          host = routingHost (Host r)
      in finish world (forwardRequest_p0 world p w r host))"

text \<open>What a list of calls holds: the dispatches, the pool lookups, the traces logged.\<close>

definition dispatches :: "event list \<Rightarrow> (Client \<times> OutRequest) list" where
  "dispatches evs = concat (map (\<lambda>ev. case ev of ClientDo c q \<Rightarrow> [(c, q)] | _ \<Rightarrow> []) evs)"

definition poolLookups :: "event list \<Rightarrow> string list" where
  "poolLookups evs = concat (map (\<lambda>ev. case ev of PoolLookup k \<Rightarrow> [k] | _ \<Rightarrow> []) evs)"

definition tracesLogged :: "event list \<Rightarrow> ProxyTrace list" where
  "tracesLogged evs = concat (map (\<lambda>ev. case ev of Log_Debug t \<Rightarrow> [t] | _ \<Rightarrow> []) evs)"

text \<open>
  The policy for a forwarding failure, in the words of the specification: the client is
  sent status 500 with the error text as the body (as \<open>http.Error\<close> prints it, with a
  newline, and as far as the connection takes it), the one trace handed to the logger
  records that error, and the backend was called at most once.
\<close>

definition surfaced500 :: "World \<Rightarrow> forward_error \<Rightarrow> ResponseWriter \<times> event list \<Rightarrow> bool" where
  "surfaced500 world e res =
     (let msg = Error_text e @ [CHR 0x0A]
      in W_Status (fst res) = Some 500
         \<and> W_Body (fst res) = take (fst (clientWrite world msg)) msg
         \<and> map Error (tracesLogged (snd res)) = [Some e]
         \<and> length (dispatches (snd res)) \<le> 1)"


text \<open>The value a call returned, for a call that did not panic.\<close>

definition returned :: "'a outcome \<Rightarrow> 'a option" where
  "returned out = (case out of Returns x \<Rightarrow> Some x | Panics \<Rightarrow> None)"

text \<open>
  Two worlds for the examples. In the first the backend refuses the connection
  (Scenario D of the specification). In the second the backend answers \<open>200\<close> with the
  body \<open>ok\<close> and the client's connection takes no byte.
\<close>

definition worldRefused :: World where
  "worldRefused = \<lparr>now = 0, elapsed = 5, readRequestBody = Inr [],
     newRequest = (\<lambda>method url. None),
     roundTrip = (\<lambda>client req. Inl ''connection refused''),
     clientWrite = (\<lambda>data. (length data, None))\<rparr>"


text \<open>A handler of src/unnamed/part\_000 for the one route of Scenario A, and a request to
  a host that has no route.\<close>

definition cfgA :: Config where
  "cfgA = \<lparr>Server = \<lparr>Port = 8080, Public = False\<rparr>, Log = \<lparr>Level = [], File = []\<rparr>,
     TransitMap = [(''api.example.com'', ruleA)]\<rparr>"

definition requestC :: Request where
  "requestC = requestA\<lparr>Host := ''unknown.example.com:8080''\<rparr>"

section \<open>The backend URL: proofs\<close>

lemma HasPrefix_slash_append:
  "p \<noteq> [] \<Longrightarrow> strings_HasPrefix (p @ q) ''/'' = strings_HasPrefix p ''/''"
  by (cases p) (simp_all add: strings_HasPrefix_def)

lemma TrimSuffix_slash:
  "strings_TrimSuffix b ''/'' = (if strings_HasSuffix b ''/'' then butlast b else b)"
  by (simp add: strings_TrimSuffix_def butlast_conv_take)

lemma path_steps_commute:
  "(let path = (if q \<noteq> [] then p @ ''?'' @ q else p)
    in (if \<not> strings_HasPrefix path ''/'' then ''/'' @ path else path))
   = (let p2 = (if strings_HasPrefix p ''/'' then p else ''/'' @ p)
      in (if q \<noteq> [] then p2 @ ''?'' @ q else p2))"
proof (cases "p = []")
  case True
  then show ?thesis by (simp add: strings_HasPrefix_def)
next
  case False
  then show ?thesis by (simp add: HasPrefix_slash_append Let_def)
qed

text \<open>
  C3. The URL that \<open>buildTransitBackendURL\<close> returns is the URL of the specification's
  algorithm, for every rule and request; and in Scenario A the host
  \<open>api.example.com:8080\<close> selects the route of \<open>api.example.com\<close>, for which the URL is
  \<open>http://backend:9000/v1/users?x=1\<close>.
\<close>

theorem C3_backend_url:
  "buildTransitBackendURL rule r =
     Inr (backendURL_spec (BackendBase rule) (BackendPrefix rule)
            (URL_Path (Url r)) (URL_RawQuery (Url r)))
   \<and> map_of [(''api.example.com'', ruleA)] (routingHost (Host requestA)) = Some ruleA
   \<and> buildTransitBackendURL ruleA requestA = Inr ''http://backend:9000/v1/users?x=1''"
proof -
  have general: "buildTransitBackendURL rule r =
     Inr (backendURL_spec (BackendBase rule) (BackendPrefix rule)
            (URL_Path (Url r)) (URL_RawQuery (Url r)))"
    using path_steps_commute [of "URL_RawQuery (Url r)" "BackendPrefix rule @ URL_Path (Url r)"]
    by (simp add: buildTransitBackendURL_def backendURL_spec_def TrimSuffix_slash hasScheme_def
        Let_def)
  have route: "map_of [(''api.example.com'', ruleA)] (routingHost (Host requestA)) = Some ruleA"
    by (simp add: routingHost_def requestA_def)
  have scenario: "buildTransitBackendURL ruleA requestA = Inr ''http://backend:9000/v1/users?x=1''"
    by (simp add: buildTransitBackendURL_def ruleA_def requestA_def strings_TrimSuffix_def
        strings_HasSuffix_def strings_HasPrefix_def)
  from general route scenario show ?thesis by simp
qed

section \<open>The header pipeline: proofs\<close>

lemma forwardClientLoop_map_of:
  "distinct (map fst inbound) \<Longrightarrow>
   map_of (forwardClientLoop rm inbound h) k =
     (if k \<in> fst ` set inbound \<and> strings_ToLower k \<notin> rm then map_of inbound k else map_of h k)"
proof (induction inbound arbitrary: h)
  case Nil
  then show ?case by simp
next
  case (Cons e inbound)
  obtain key vals where e: "e = (key, vals)" by (cases e)
  from Cons.prems have d: "distinct (map fst inbound)" and nk: "key \<notin> fst ` set inbound"
    by (auto simp: e)
  show ?case using Cons.IH [OF d] nk
    by (auto simp: e update_conv' map_of_eq_None_iff)
qed

lemma Header_Set_map_of:
  "map_of (Header_Set h key v) k = (if k = CanonicalMIMEHeaderKey key then Some [v] else map_of h k)"
  by (simp add: Header_Set_def update_conv')

lemma Header_Del_map_of:
  "map_of (Header_Del h key) k = (if k = CanonicalMIMEHeaderKey key then None else map_of h k)"
  by (simp add: Header_Del_def delete_conv')


lemma setLoop_step_map_of:
  "map_of (Header_Set (if Header_Get h key \<noteq> [] then Header_Del h key else h) key v) k =
     (if k = CanonicalMIMEHeaderKey key then Some [v] else map_of h k)"
  by (simp add: Header_Set_map_of Header_Del_map_of)

lemma setLoop_untouched:
  "\<forall>e \<in> set st. CanonicalMIMEHeaderKey (fst e) \<noteq> k \<Longrightarrow> map_of (setLoop st h) k = map_of h k"
proof (induction st arbitrary: h)
  case Nil
  then show ?case by simp
next
  case (Cons e st)
  obtain key x where e: "e = (key, x)" by (cases e)
  from Cons.prems have rest: "\<forall>e \<in> set st. CanonicalMIMEHeaderKey (fst e) \<noteq> k"
    and here: "CanonicalMIMEHeaderKey key \<noteq> k" by (auto simp: e)
  show ?case using Cons.IH [OF rest] here
    by (simp add: e Let_def setLoop_step_map_of)
qed


lemma Canonical_Host: "CanonicalMIMEHeaderKey ''Host'' = ''Host''"
  by (simp add: CanonicalMIMEHeaderKey_def validHeaderFieldByte_def toUpperByte_def toLowerByte_def)


lemma ToLower_Authorization: "strings_ToLower ''Authorization'' = ''authorization''"
  by (simp add: strings_ToLower_def toLowerByte_def)

lemma ToLower_XFoo: "strings_ToLower ''X-Foo'' = ''x-foo''"
  by (simp add: strings_ToLower_def toLowerByte_def)

lemma LoadConfig_range_id: "LoadConfig_range rules cfg = cfg"
  by (induction rules cfg rule: LoadConfig_range.induct) (simp_all add: Let_def)

lemma LoadConfig_TransitMap:
  "LoadConfig (Inr cfg0) = Inr cfg \<Longrightarrow> TransitMap cfg = TransitMap cfg0"
  by (auto simp: LoadConfig_def LoadConfig_range_id Let_def split: if_splits)

lemma processHeaders_eq:
  "processHeaders P r rule =
     Header_Set (processHeaders_p0 r rule) ''Host'' (extractHost P (BackendBase rule))"
  by (simp add: processHeaders_def processHeaders_p0_def Let_def)

lemma processHeaders_other:
  "k \<noteq> ''Host'' \<Longrightarrow> map_of (processHeaders P r rule) k = map_of (processHeaders_p0 r rule) k"
  by (simp add: processHeaders_eq Header_Set_map_of Canonical_Host)







lemma extraLoop_untouched:
  "\<forall>e \<in> set ex. CanonicalMIMEHeaderKey (fst e) \<noteq> k \<Longrightarrow> map_of (extraLoop ex h) k = map_of h k"
proof (induction ex arbitrary: h)
  case Nil
  then show ?case by simp
next
  case (Cons e ex)
  obtain key x where e: "e = (key, x)" by (cases e)
  from Cons.prems have rest: "\<forall>e \<in> set ex. CanonicalMIMEHeaderKey (fst e) \<noteq> k"
    and here: "CanonicalMIMEHeaderKey key \<noteq> k" by (auto simp: e)
  show ?case using Cons.IH [OF rest] here
    by (simp add: e Header_Set_map_of)
qed

text \<open>
  The lookup side of the removal is case-insensitive: when \<open>removes\<close> holds the lower-cased
  name of an inbound header, the header is not forwarded (and is absent from the result
  unless \<open>extra\<close> or \<open>set\<close> add a header of that name).
\<close>

lemma removed_when_listed:
  assumes "distinct (map fst (Header r))" "strings_ToLower k \<in> removes (Headers rule)"
    "\<forall>e \<in> set (Extra (Headers rule)). CanonicalMIMEHeaderKey (fst e) \<noteq> k"
    "\<forall>e \<in> set (Set (Headers rule)). CanonicalMIMEHeaderKey (fst e) \<noteq> k"
  shows "map_of (processHeaders_p0 r rule) k = None"
  using assms
  by (simp add: processHeaders_p0_def Let_def setLoop_untouched extraLoop_untouched
      forwardClientLoop_map_of)

text \<open>
  C1. The claim: after \<open>LoadConfig\<close>, a rule with \<open>forward_client\<close> true and
  \<open>authorization\<close> in its \<open>remove\<close> list strips an inbound \<open>Authorization\<close> header. The
  code at that input: \<open>LoadConfig\<close> returns the configuration as it was decoded, the
  \<open>removes\<close> of its rule still empty, and both header pipelines pass \<open>Authorization\<close> on to
  the backend. The rule that the loop body computed, and dropped, would have removed it.
\<close>

theorem C1_removes_lost:
  "LoadConfig (Inr decodedC1) = Inr decodedC1
   \<and> map_of (TransitMap decodedC1) ''api.example.com'' = Some ruleC1
   \<and> ForwardClient (Headers ruleC1)
   \<and> ''authorization'' \<in> set (Remove (Headers ruleC1))
   \<and> removes (Headers ruleC1) = {}
   \<and> map_of (Header requestB) ''Authorization'' = Some [''Bearer t'']
   \<and> map_of (processHeaders_p0 requestB ruleC1) ''Authorization'' = Some [''Bearer t'']
   \<and> map_of (processHeaders url_Parse requestB ruleC1) ''Authorization'' = Some [''Bearer t'']
   \<and> map_of (processHeaders_p0 requestB (LoadConfig_body ruleC1)) ''Authorization'' = None"
proof -
  have load: "LoadConfig (Inr decodedC1) = Inr decodedC1"
    by (simp add: LoadConfig_def LoadConfig_range_id decodedC1_def)
  have p0: "map_of (processHeaders_p0 requestB ruleC1) ''Authorization'' = Some [''Bearer t'']"
    by (simp add: processHeaders_p0_def ruleC1_def requestB_def ToLower_Authorization
        ToLower_XFoo)
  have px: "map_of (processHeaders url_Parse requestB ruleC1) ''Authorization''
       = Some [''Bearer t'']"
    using p0 by (simp add: processHeaders_other)
  have body: "map_of (processHeaders_p0 requestB (LoadConfig_body ruleC1)) ''Authorization'' = None"
    by (rule removed_when_listed)
      (simp_all add: LoadConfig_body_def ruleC1_def requestB_def ToLower_Authorization
        strings_ToLower_def toLowerByte_def)
  from load p0 px body show ?thesis
    by (simp add: decodedC1_def ruleC1_def requestB_def)
qed




section \<open>The trace rendering: proofs\<close>

lemma String_eq_spec: "String L p = String_spec L p"
  by (simp add: String_def String_spec_def segment_def Let_def)

lemma bodyString_decoded:
  assumes "isTextType (Header_Get hs ''Content-Type'')"
    "strings_Contains (strings_ToLower (Header_Get hs ''Content-Encoding'')) ''gzip''"
    "gzip_Reset L body = None" "gzip_ReadAll L body = (plain, None)"
  shows "bodyString L hs body = plain"
  using assms by (simp add: bodyString_def decompress_def Let_def)

lemma bodyString_fallback:
  assumes "isTextType (Header_Get hs ''Content-Type'')"
    "strings_Contains (strings_ToLower (Header_Get hs ''Content-Encoding'')) ''gzip''"
    "gzip_Reset L body \<noteq> None \<or> snd (gzip_ReadAll L body) \<noteq> None"
  shows "bodyString L hs body =
     ''[gzip '' @ Header_Get hs ''Content-Type'' @ '' '' @ humanize_IBytes L (length body) @ '']''"
  using assms by (auto simp: bodyString_def decompress_def Let_def split: option.splits prod.splits)

lemma Canonical_ContentType: "CanonicalMIMEHeaderKey ''Content-Type'' = ''Content-Type''"
  by (simp add: CanonicalMIMEHeaderKey_def validHeaderFieldByte_def toUpperByte_def toLowerByte_def
      Let_def)

lemma Canonical_ContentEncoding:
  "CanonicalMIMEHeaderKey ''Content-Encoding'' = ''Content-Encoding''"
  by (simp add: CanonicalMIMEHeaderKey_def validHeaderFieldByte_def toUpperByte_def toLowerByte_def
      Let_def)

lemma gzipHeaders_type: "Header_Get gzipHeaders ''Content-Type'' = ''application/json''"
  by (simp add: Header_Get_def gzipHeaders_def Canonical_ContentType)

lemma gzipHeaders_encoding: "Header_Get gzipHeaders ''Content-Encoding'' = ''gzip''"
  by (simp add: Header_Get_def gzipHeaders_def Canonical_ContentEncoding)

lemma isTextType_json: "isTextType ''application/json''"
  by (simp add: isTextType_def strings_ToLower_def toLowerByte_def strings_HasPrefix_def)

lemma Contains_gzip: "strings_Contains (strings_ToLower ''gzip'') ''gzip''"
  by (simp add: strings_ToLower_def toLowerByte_def strings_HasPrefix_def)

lemma gzJson_not_text: "''not gzip'' \<noteq> gzJson"
  by (simp add: gzJson_def)

text \<open>A content type that contains one of the three texts as written also contains it
  after lower-casing.\<close>

lemma HasPrefix_map:
  "strings_HasPrefix s sub \<Longrightarrow> strings_HasPrefix (map f s) (map f sub)"
  unfolding strings_HasPrefix_def by (metis length_map take_map)

lemma Contains_map:
  "strings_Contains s sub \<Longrightarrow> strings_Contains (map f s) (map f sub)"
proof (induction s)
  case Nil
  then show ?case by simp
next
  case (Cons c s)
  from Cons.prems have "strings_HasPrefix (c # s) sub \<or> strings_Contains s sub" by simp
  then show ?case
  proof
    assume "strings_HasPrefix (c # s) sub"
    from HasPrefix_map [OF this, of f] show ?thesis by simp
  next
    assume "strings_Contains s sub"
    from Cons.IH [OF this] show ?thesis by simp
  qed
qed

lemma isTextType_literal:
  "strings_Contains ct ''application/json''
   \<or> strings_Contains ct ''application/x-www-form-urlencoded''
   \<or> strings_Contains ct ''text/'' \<Longrightarrow> isTextType ct"
proof -
  have l: "map toLowerByte ''application/json'' = ''application/json''"
    "map toLowerByte ''application/x-www-form-urlencoded'' = ''application/x-www-form-urlencoded''"
    "map toLowerByte ''text/'' = ''text/''"
    by (simp_all add: toLowerByte_def)
  assume "strings_Contains ct ''application/json''
   \<or> strings_Contains ct ''application/x-www-form-urlencoded''
   \<or> strings_Contains ct ''text/''"
  with Contains_map [of ct _ toLowerByte] l show ?thesis
    unfolding isTextType_def strings_ToLower_def by metis
qed

text \<open>
  C7. For a trace whose request \<open>Content-Type\<close> names JSON, form encoding or \<open>text/\<close> and
  whose request \<open>Content-Encoding\<close> names gzip: when the stored request body decompresses
  to a plaintext without error, the rendered request body is exactly that plaintext; when
  the gzip header or the stream is rejected, it is the placeholder made of \<open>[gzip\<close>, the
  content type and the human size of the stored body. The same for the response body
  against the response headers.
\<close>

theorem C7_gzip_body:
  "(isTextType (Header_Get (RequestHeaders p) ''Content-Type'')
      \<and> strings_Contains (strings_ToLower (Header_Get (RequestHeaders p) ''Content-Encoding''))
            ''gzip''
    \<longrightarrow> (gzip_Reset L (RequestBody p) = None \<and> gzip_ReadAll L (RequestBody p) = (plain, None)
           \<longrightarrow> reqBodyString L p = plain)
        \<and> (gzip_Reset L (RequestBody p) \<noteq> None \<or> snd (gzip_ReadAll L (RequestBody p)) \<noteq> None
           \<longrightarrow> reqBodyString L p =
                 ''[gzip '' @ Header_Get (RequestHeaders p) ''Content-Type'' @ '' ''
                 @ humanize_IBytes L (length (RequestBody p)) @ '']''))
   \<and> (isTextType (Header_Get (ResponseHeaders p) ''Content-Type'')
      \<and> strings_Contains (strings_ToLower (Header_Get (ResponseHeaders p) ''Content-Encoding''))
            ''gzip''
    \<longrightarrow> (gzip_Reset L (ResponseBody p) = None \<and> gzip_ReadAll L (ResponseBody p) = (plain', None)
           \<longrightarrow> rspBodyString L p = plain')
        \<and> (gzip_Reset L (ResponseBody p) \<noteq> None \<or> snd (gzip_ReadAll L (ResponseBody p)) \<noteq> None
           \<longrightarrow> rspBodyString L p =
                 ''[gzip '' @ Header_Get (ResponseHeaders p) ''Content-Type'' @ '' ''
                 @ humanize_IBytes L (length (ResponseBody p)) @ '']''))"
  unfolding reqBodyString_def rspBodyString_def
  using bodyString_decoded [of "RequestHeaders p" L "RequestBody p" plain]
    bodyString_fallback [of "RequestHeaders p" L "RequestBody p"]
    bodyString_decoded [of "ResponseHeaders p" L "ResponseBody p" plain']
    bodyString_fallback [of "ResponseHeaders p" L "ResponseBody p"]
  by blast

text \<open>The example trace: its request body is the gzip of \<open>{"a":1}\<close>, its response body is
  no gzip stream.\<close>

theorem C7_gzip_body_witness:
  "reqBodyString exampleLibrary traceGz = plainJson
   \<and> rspBodyString exampleLibrary traceGz = ''[gzip application/json 8 B]''"
  using C7_gzip_body [of traceGz exampleLibrary plainJson plainJson]
  by (simp add: traceGz_def gzipHeaders_type gzipHeaders_encoding isTextType_json Contains_gzip
      exampleLibrary_def gzJson_not_text)

lemma headerString_gzip:
  "headerString gzipHeaders = ''Content-Encoding: gzip; Content-Type: application/json''"
  by (simp add: headerString_def gzipHeaders_def)

lemma rendered_example:
  "String exampleLibrary traceGz =
     traceHead exampleLibrary traceGz
     @ '' | '' @ label_reqHeaders @ '': Content-Encoding: gzip; Content-Type: application/json''
     @ '' | '' @ label_reqBody @ '': '' @ plainJson
     @ '' | '' @ label_rspHeaders @ '': Content-Encoding: gzip; Content-Type: application/json''
     @ '' | '' @ label_rspBody @ '': [gzip application/json 8 B]''"
proof -
  have h: "RequestHeaders traceGz = gzipHeaders" "TransitHeaders traceGz = gzipHeaders"
    "ResponseHeaders traceGz = gzipHeaders"
    by (simp_all add: traceGz_def)
  have b: "reqBodyString exampleLibrary traceGz = plainJson"
    "rspBodyString exampleLibrary traceGz = ''[gzip application/json 8 B]''"
    by (simp_all add: reqBodyString_def rspBodyString_def traceGz_def bodyString_def
        decompress_def gzipHeaders_type gzipHeaders_encoding isTextType_json Contains_gzip
        exampleLibrary_def gzJson_not_text)
  have ne: "plainJson \<noteq> []" by (simp add: plainJson_def)
  show ?thesis
    unfolding String_eq_spec String_spec_def h b headerString_gzip
    using ne by (simp add: segment_def)
qed

text \<open>
  C8. The rendered line is the head followed by the segments whose content is not empty,
  the transit headers being left out as well when their text equals the text of the
  request headers. A trace with no headers and no bodies renders as the head alone; the
  example trace, whose transit headers equal its request headers, renders without the
  transit segment.
\<close>

theorem C8_segments_omitted:
  "String L p = String_spec L p
   \<and> String L (p\<lparr>RequestHeaders := [], TransitHeaders := [], ResponseHeaders := [],
                   RequestBody := [], ResponseBody := []\<rparr>) = traceHead L p
   \<and> String exampleLibrary traceGz =
       traceHead exampleLibrary traceGz
       @ '' | '' @ label_reqHeaders @ '': Content-Encoding: gzip; Content-Type: application/json''
       @ '' | '' @ label_reqBody @ '': '' @ plainJson
       @ '' | '' @ label_rspHeaders @ '': Content-Encoding: gzip; Content-Type: application/json''
       @ '' | '' @ label_rspBody @ '': [gzip application/json 8 B]''"
proof -
  have "String L (p\<lparr>RequestHeaders := [], TransitHeaders := [], ResponseHeaders := [],
                   RequestBody := [], ResponseBody := []\<rparr>) = traceHead L p"
    by (simp add: String_eq_spec String_spec_def segment_def headerString_def reqBodyString_def
        rspBodyString_def bodyString_def Header_Get_def isTextType_def strings_ToLower_def
        traceHead_def)
  with String_eq_spec [of L p] rendered_example show ?thesis by simp
qed

section \<open>Pools and forwarding: proofs\<close>

lemma store_fresh:
  assumes "fresh_bound pool fresh" "one_key_per_client pool" "client_addr c = fresh"
  shows "fresh_bound (AList.update k c pool) (Suc fresh)"
    and "one_key_per_client (AList.update k c pool)"
proof -
  show "fresh_bound (AList.update k c pool) (Suc fresh)"
    using assms(1,3) by (auto simp: fresh_bound_def update_conv' less_Suc_eq split: if_splits)
  show "one_key_per_client (AList.update k c pool)"
    unfolding one_key_per_client_def
  proof (intro allI impI, elim conjE)
    fix k1 k2 c1 c2
    assume a: "map_of (AList.update k c pool) k1 = Some c1"
      "map_of (AList.update k c pool) k2 = Some c2" "client_addr c1 = client_addr c2"
    show "k1 = k2"
    proof (cases "k1 = k")
      case True
      with a(1) have c1: "c1 = c" by (simp add: update_conv')
      show ?thesis
      proof (cases "k2 = k")
        case True
        with \<open>k1 = k\<close> show ?thesis by simp
      next
        case False
        with a(2) have "map_of pool k2 = Some c2" by (simp add: update_conv')
        with assms(1) have "client_addr c2 < fresh" by (auto simp: fresh_bound_def)
        with a(3) c1 assms(3) show ?thesis by simp
      qed
    next
      case False
      with a(1) have m1: "map_of pool k1 = Some c1" by (simp add: update_conv')
      show ?thesis
      proof (cases "k2 = k")
        case True
        with a(2) have "c2 = c" by (simp add: update_conv')
        moreover from m1 assms(1) have "client_addr c1 < fresh" by (auto simp: fresh_bound_def)
        ultimately show ?thesis using a(3) assms(3) by simp
      next
        case False
        with a(2) have "map_of pool k2 = Some c2" by (simp add: update_conv')
        with m1 a(3) assms(2) show ?thesis unfolding one_key_per_client_def by blast
      qed
    qed
  qed
qed


lemma pools_p0_separate:
  "fresh_bound pool fresh \<Longrightarrow> one_key_per_client pool \<Longrightarrow>
   one_key_per_client (initializeClientPools_p0 rules pool fresh)"
proof (induction rules arbitrary: pool fresh)
  case Nil
  then show ?case by simp
next
  case (Cons e rules)
  obtain host rule where e: "e = (host, rule)" by (cases e)
  define c where "c = \<lparr>client_addr = fresh,
      client_dial = (if IP (Resolve rule) \<noteq> [] then IPDialer (IP (Resolve rule))
                     else if DNS (Resolve rule) \<noteq> [] then DnsResolvDialer (DNS (Resolve rule))
                     else SystemDialer)\<rparr>"
  have addr: "client_addr c = fresh" by (simp add: c_def)
  have step: "initializeClientPools_p0 (e # rules) pool fresh =
      initializeClientPools_p0 rules (AList.update host c pool) (Suc fresh)"
    by (simp add: e Let_def c_def)
  from store_fresh [OF Cons.prems addr, of host] Cons.IH step show ?case by simp
qed



lemma empty_pool: "fresh_bound [] 0" "one_key_per_client []" "fixed_keys P []"
  by (simp_all add: fresh_bound_def one_key_per_client_def fixed_keys_def)

lemma dispatch_Error_kinds:
  "dispatch world w t c q = (t', w', evs) \<Longrightarrow>
   Error t' = Error t
   \<or> (\<exists>err. Error t' = Some (DispatchFailed err))
   \<or> (\<exists>err. Error t' = Some (ReadResponseBodyFailed err))
   \<or> (\<exists>err. Error t' = Some (WriteResponseFailed err))"
  by (auto simp: dispatch_def Let_def split: sum.splits option.splits prod.splits)

lemma dispatch_keeps_kind:
  "dispatch world w t c q = (t', w', evs) \<Longrightarrow> Error t = None \<Longrightarrow>
   Error t' \<noteq> Some (PoolNotFound h) \<and> Error t' \<noteq> Some (URLBuildFailed e)
   \<and> Error t' \<noteq> Some (RouteNotFound h)"
  using dispatch_Error_kinds [of world w t c q t' w' evs] by auto



lemma p0_own_client:
  assumes "map_of (clients (NewProxyHandler_p0 cfg)) h1 = Some c1"
    "map_of (clients (NewProxyHandler_p0 cfg)) h2 = Some c2" "h1 \<noteq> h2"
  shows "client_addr c1 \<noteq> client_addr c2"
  using pools_p0_separate [OF empty_pool(1,2), of "TransitMap cfg"] assms
  unfolding one_key_per_client_def NewProxyHandler_p0_def by auto








lemma http_Error_fresh:
  "W_Status w = None \<Longrightarrow>
   W_Status (http_Error world w msg code) = Some code
   \<and> W_Body (http_Error world w msg code)
       = W_Body w @ take (fst (clientWrite world (msg @ [CHR 0x0A]))) (msg @ [CHR 0x0A])"
  by (simp add: http_Error_def Write_def WriteHeader_def Let_def split: prod.splits)


lemma events_simps:
  "dispatches [] = []" "poolLookups [] = []" "tracesLogged [] = []"
  "dispatches (ev # evs) = (case ev of ClientDo c q \<Rightarrow> [(c, q)] | _ \<Rightarrow> []) @ dispatches evs"
  "poolLookups (ev # evs) = (case ev of PoolLookup k \<Rightarrow> [k] | _ \<Rightarrow> []) @ poolLookups evs"
  "tracesLogged (ev # evs) = (case ev of Log_Debug t \<Rightarrow> [t] | _ \<Rightarrow> []) @ tracesLogged evs"
  "dispatches (evs @ evs') = dispatches evs @ dispatches evs'"
  "poolLookups (evs @ evs') = poolLookups evs @ poolLookups evs'"
  "tracesLogged (evs @ evs') = tracesLogged evs @ tracesLogged evs'"
  by (simp_all add: dispatches_def poolLookups_def tracesLogged_def)




lemma finish_failed:
  assumes "Error t = Some e" "W_Status w = None" "W_Body w = []"
    "length (dispatches evs) \<le> 1" "tracesLogged evs = []"
  shows "surfaced500 world e (finish world (t, w, evs))"
  using assms http_Error_fresh [OF assms(2), of world "Error_text e" 500]
  by (simp add: surfaced500_def finish_def Let_def events_simps)


lemma fresh_writer: "W_Status newResponseWriter = None" "W_Body newResponseWriter = []"
  by (simp_all add: newResponseWriter_def)



lemma finish_events_long: "length (snd (finish world res)) \<ge> 2"
  by (cases res) (simp add: finish_def Let_def split: option.splits)

lemma url_Inr: "\<exists>url. buildTransitBackendURL rule r = Inr url"
  by (simp add: buildTransitBackendURL_def Let_def)

lemma url_not_Inl: "buildTransitBackendURL rule r \<noteq> Inl err"
  by (simp add: buildTransitBackendURL_def Let_def)

lemma forwardRequest_p0_no_url_error:
  "Error (fst (forwardRequest_p0 world p w r host)) \<noteq> Some (URLBuildFailed err)"
  by (auto simp: url_not_Inl forwardRequest_p0_def Let_def newTrace_def
      split: sum.splits option.splits prod.splits dest!: dispatch_keeps_kind)

lemma ServeHTTP_no_url_branch:
  "ServeHTTP P world p r
     \<noteq> Returns (http_Error world newResponseWriter msg_internal 500, [Log_Infof_urlFailed err])"
proof
  assume a: "ServeHTTP P world p r
     = Returns (http_Error world newResponseWriter msg_internal 500, [Log_Infof_urlFailed err])"
  show False
  proof (cases "map_of (TransitMap (config p)) (routingHost (Host r))")
    case None
    with a show False by (simp add: ServeHTTP_def Let_def)
  next
    case (Some rule)
    obtain url where url: "buildTransitBackendURL rule r = Inr url"
      using url_Inr by blast
    show False
    proof (cases "forwardRequest P world p newResponseWriter r url rule")
      case Panics
      with a Some url show False by (simp add: ServeHTTP_def Let_def)
    next
      case (Returns res)
      with a Some url
      have "snd (finish world res) = [Log_Infof_urlFailed err]"
        by (simp add: ServeHTTP_def Let_def)
      with finish_events_long [of world res] show False by simp
    qed
  qed
qed

text \<open>
  C10. \<open>buildTransitBackendURL\<close> returns a URL and a nil error for every rule and request;
  so \<open>forwardRequest\<close> of src/unnamed/part\_000 never records a URL construction error, and
  \<open>ServeHTTP\<close> of src/proxy.go never takes the branch that answers 500 for one.
\<close>

theorem C10_url_never_fails:
  "(\<exists>url. buildTransitBackendURL rule r = Inr url)
   \<and> (\<forall>err. buildTransitBackendURL rule r \<noteq> Inl err)
   \<and> (\<forall>err. Error (fst (forwardRequest_p0 world p w r host)) \<noteq> Some (URLBuildFailed err))
   \<and> (\<forall>err. ServeHTTP url_Parse world p r
         \<noteq> Returns (http_Error world newResponseWriter msg_internal 500,
                      [Log_Infof_urlFailed err]))"
  using url_Inr [of rule r] url_not_Inl [of rule r]
    forwardRequest_p0_no_url_error [of world p w r host]
    ServeHTTP_no_url_branch [of url_Parse world p r]
  by blast

section \<open>Failures and missing routes: proofs\<close>

lemma cfgA_handler:
  "config (NewProxyHandler_p0 cfgA) = cfgA"
  "clients (NewProxyHandler_p0 cfgA)
     = [(''api.example.com'', \<lparr>client_addr = 0, client_dial = SystemDialer\<rparr>)]"
  "TransitMap cfgA = [(''api.example.com'', ruleA)]"
  by (simp_all add: NewProxyHandler_p0_def cfgA_def ruleA_def)

lemma routing_examples:
  "routingHost (Host requestA) = ''api.example.com''"
  "routingHost (Host requestC) = ''unknown.example.com''"
  by (simp_all add: routingHost_def requestA_def requestC_def)








text \<open>
  C6, as stated, fails for src/unnamed/part\_000: a request whose host has no route still
  gets a trace, and \<open>ServeHTTP\<close> hands it to the logger.
\<close>

theorem C6_trace_logged_without_route:
  "map_of (TransitMap (config (NewProxyHandler_p0 cfgA))) (routingHost (Host requestC)) = None
   \<and> map Error (tracesLogged (snd (ServeHTTP_p0 worldRefused (NewProxyHandler_p0 cfgA) requestC)))
       = [Some (RouteNotFound ''unknown.example.com'')]
   \<and> tracesLogged (snd (ServeHTTP_p0 worldRefused (NewProxyHandler_p0 cfgA) requestC)) \<noteq> []"
  by (simp add: ServeHTTP_p0_def forwardRequest_p0_def cfgA_handler routing_examples Let_def
      finish_def tracesLogged_def)

text \<open>
  C6, amended. For a request whose host, cut at its first colon, has no route: in
  src/proxy.go the client is sent 404 and the only call made is the logger's note of the
  missing route (no pool lookup, no dispatch, no trace logged); in src/unnamed/part\_000
  the client is sent 500 with the error text, no pool is looked up and nothing is
  dispatched, and the one trace, which records the missing route, is handed to the
  logger.
\<close>

theorem C6_no_route:
  "map_of (TransitMap (config p)) (routingHost (Host r)) = None \<longrightarrow>
     ServeHTTP url_Parse world p r
       = Returns (http_Error world newResponseWriter msg_noRoute 404,
                  [Log_Infof_noRoute (routingHost (Host r))])
     \<and> W_Status (http_Error world newResponseWriter msg_noRoute 404) = Some 404
     \<and> surfaced500 world (RouteNotFound (routingHost (Host r))) (ServeHTTP_p0 world p r)
     \<and> poolLookups (snd (ServeHTTP_p0 world p r)) = []
     \<and> dispatches (snd (ServeHTTP_p0 world p r)) = []
     \<and> tracesLogged (snd (ServeHTTP_p0 world p r))
         = [(newTrace world (routingHost (Host r)) [] r)
              \<lparr>Error := Some (RouteNotFound (routingHost (Host r))), Duration := elapsed world\<rparr>]"
proof
  assume none: "map_of (TransitMap (config p)) (routingHost (Host r)) = None"
  let ?h = "routingHost (Host r)"
  let ?t = "(newTrace world ?h [] r)\<lparr>Error := Some (RouteNotFound ?h)\<rparr>"
  have fwd: "forwardRequest_p0 world p newResponseWriter r ?h = (?t, newResponseWriter, [])"
    using none by (simp add: forwardRequest_p0_def Let_def)
  have serve: "ServeHTTP_p0 world p r = finish world (?t, newResponseWriter, [])"
    by (simp add: ServeHTTP_p0_def Let_def fwd)
  have s500: "surfaced500 world (RouteNotFound ?h) (ServeHTTP_p0 world p r)"
    unfolding serve by (rule finish_failed) (simp_all add: fresh_writer events_simps)
  have evs: "snd (ServeHTTP_p0 world p r)
      = [Log_Debug (?t\<lparr>Duration := elapsed world\<rparr>),
         Log_Warnf_failed (Method r) (?h @ URL_Path (Url r)) (elapsed world)
           (Error_text (RouteNotFound ?h))]"
    unfolding serve by (simp add: finish_def Let_def newTrace_def)
  have proxy: "ServeHTTP url_Parse world p r
       = Returns (http_Error world newResponseWriter msg_noRoute 404, [Log_Infof_noRoute ?h])"
    using none by (simp add: ServeHTTP_def Let_def)
  have st: "W_Status (http_Error world newResponseWriter msg_noRoute 404) = Some 404"
    using http_Error_fresh [OF fresh_writer(1)] by blast
  from proxy st s500 evs
  show "ServeHTTP url_Parse world p r
       = Returns (http_Error world newResponseWriter msg_noRoute 404,
                  [Log_Infof_noRoute (routingHost (Host r))])
     \<and> W_Status (http_Error world newResponseWriter msg_noRoute 404) = Some 404
     \<and> surfaced500 world (RouteNotFound (routingHost (Host r))) (ServeHTTP_p0 world p r)
     \<and> poolLookups (snd (ServeHTTP_p0 world p r)) = []
     \<and> dispatches (snd (ServeHTTP_p0 world p r)) = []
     \<and> tracesLogged (snd (ServeHTTP_p0 world p r))
         = [(newTrace world (routingHost (Host r)) [] r)
              \<lparr>Error := Some (RouteNotFound (routingHost (Host r))), Duration := elapsed world\<rparr>]"
    by (simp add: events_simps)
qed

text \<open>Scenario C: a request for \<open>unknown.example.com:8080\<close> to a handler that routes
  \<open>api.example.com\<close> only.\<close>

theorem C6_no_route_witness:
  "ServeHTTP exampleParse worldRefused (NewProxyHandler exampleParse cfgA) requestC
     = Returns (http_Error worldRefused newResponseWriter msg_noRoute 404,
                [Log_Infof_noRoute ''unknown.example.com''])
   \<and> W_Status (http_Error worldRefused newResponseWriter msg_noRoute 404) = Some 404
   \<and> W_Body (http_Error worldRefused newResponseWriter msg_noRoute 404)
       = msg_noRoute @ [CHR 0x0A]
   \<and> poolLookups (snd (ServeHTTP_p0 worldRefused (NewProxyHandler_p0 cfgA) requestC)) = []
   \<and> dispatches (snd (ServeHTTP_p0 worldRefused (NewProxyHandler_p0 cfgA) requestC)) = []
   \<and> W_Status (fst (ServeHTTP_p0 worldRefused (NewProxyHandler_p0 cfgA) requestC)) = Some 500"
proof -
  have body: "W_Body (http_Error worldRefused newResponseWriter msg_noRoute 404)
       = msg_noRoute @ [CHR 0x0A]"
    using http_Error_fresh [OF fresh_writer(1), of worldRefused msg_noRoute 404]
    by (simp add: fresh_writer worldRefused_def)
  have cfg: "config (NewProxyHandler exampleParse cfgA) = cfgA"
    by (simp add: NewProxyHandler_def)
  from C6_no_route [of "NewProxyHandler exampleParse cfgA" requestC exampleParse worldRefused]
    C6_no_route [of "NewProxyHandler_p0 cfgA" requestC exampleParse worldRefused] body
  show ?thesis
    by (simp add: cfg cfgA_handler routing_examples surfaced500_def Let_def)
qed

section \<open>Canonical header names: proofs\<close>





















end
